theory Spec2Isabelle
  imports Main
begin

section \<open>Syntax trees and refined assignment patterns\<close>

text \<open>
  The nodes that \<^verbatim>\<open>refineLeftHandSideExpression\<close> and
  \<^verbatim>\<open>Evaluate_AssignmentExpression\<close> inspect. A node is a JavaScript object with a
  \<^verbatim>\<open>type\<close> tag; the constructor is the tag, the arguments are the fields the code reads,
  in the order given in the comments. Every node whose tag is none of the six the refiner
  names is \<open>OtherNode\<close> with its tag (\<^verbatim>\<open>Elision\<close>, \<^verbatim>\<open>SpreadElement\<close>,
  \<^verbatim>\<open>MemberExpression\<close>, a literal, ...).

  The code compares \<^verbatim>\<open>PropertyName\<close> with \<^verbatim>\<open>null\<close> by \<^verbatim>\<open>===\<close>, which tells \<^verbatim>\<open>null\<close> from
  \<^verbatim>\<open>undefined\<close>, so that field has three shapes. It tests \<^verbatim>\<open>AssignmentExpression\<close> of a
  property definition for truth only, and reads its \<^verbatim>\<open>type\<close>: \<^verbatim>\<open>null\<close> and \<^verbatim>\<open>undefined\<close>
  behave alike there and are both \<open>None\<close>. An element of \<^verbatim>\<open>ElementList\<close> is a node, or
  is absent: \<open>None\<close> is an empty slot of the array, at which \<^verbatim>\<open>Array.prototype.map\<close>
  does not call its function.
\<close>

datatype 'a js_opt = Js_undefined | Js_null | Js_some 'a

datatype node =
    ArrayLiteral "node option list"
      \<comment> \<open>\<^verbatim>\<open>ElementList\<close>; an absent element (empty slot) is \<open>None\<close>\<close>
  | ObjectLiteral "node list"
      \<comment> \<open>\<^verbatim>\<open>PropertyDefinitionList\<close>\<close>
  | PropertyDefinition "node js_opt" "node option"
      \<comment> \<open>\<^verbatim>\<open>PropertyName\<close> (\<^verbatim>\<open>null\<close> for a spread property), \<^verbatim>\<open>AssignmentExpression\<close>\<close>
  | IdentifierReference string
  | CoverInitializedName node node
      \<comment> \<open>\<^verbatim>\<open>IdentifierReference\<close>, \<^verbatim>\<open>Initializer\<close>\<close>
  | AssignmentExpression node string node
      \<comment> \<open>\<^verbatim>\<open>LeftHandSideExpression\<close>, \<^verbatim>\<open>AssignmentOperator\<close>, \<^verbatim>\<open>AssignmentExpression\<close>\<close>
  | OtherNode string

text \<open>
  What the refiner builds: plain JavaScript objects, written as object literals in the
  source. An object is the list of its fields in creation order, the \<^verbatim>\<open>type\<close> field
  included, so that the model shows which field names an object carries. \<open>P_hole\<close> is an
  empty slot of an array: \<^verbatim>\<open>map\<close> leaves the slots that are empty in its input empty in
  its result.
\<close>

datatype pattern =
    P_hole
  | P_undefined
  | P_null
  | P_string string
  | P_node node
  | P_array "pattern list"
  | P_object "(string \<times> pattern) list"

text \<open>Reading a field of an object: a missing field reads as \<^verbatim>\<open>undefined\<close>.\<close>

fun get_field :: "pattern \<Rightarrow> string \<Rightarrow> pattern" where
  "get_field (P_object fs) k = (case map_of fs k of Some v \<Rightarrow> v | None \<Rightarrow> P_undefined)"
| "get_field _ k = P_undefined"

fun field_names :: "pattern \<Rightarrow> string list" where
  "field_names (P_object fs) = map fst fs"
| "field_names _ = []"

text \<open>
  Exceptions of the host, which are not completion records: \<^verbatim>\<open>OutOfRange\<close> thrown by
  the refiner, the \<^verbatim>\<open>TypeError\<close> of reading a property of \<^verbatim>\<open>null\<close> or
  \<^verbatim>\<open>undefined\<close>, and the failed assertion of \<^verbatim>\<open>X(...)\<close>.
\<close>

datatype host_error =
    OutOfRange string string
  | TypeError
  | AssertionError

definition name_field :: "node js_opt \<Rightarrow> pattern" where
  "name_field n = (case n of Js_undefined \<Rightarrow> P_undefined | Js_null \<Rightarrow> P_null | Js_some m \<Rightarrow> P_node m)"

text \<open>
  \<^verbatim>\<open>refineLeftHandSideExpression\<close>, lines 22 to 83. \<open>refine_ElementList\<close> is the
  \<^verbatim>\<open>ElementList.map(...)\<close> of line 27, left to right, stopping at the first element whose
  refinement throws and passing over the empty slots. \<open>refine_PropertyDefinitionList\<close> is the \<^verbatim>\<open>forEach\<close> of lines 34 to
  43; its accumulator is \<^verbatim>\<open>refined.AssignmentPropertyList\<close> and the value of
  \<^verbatim>\<open>refined.AssignmentRestProperty\<close> (\<open>None\<close> while the field has not been assigned).
\<close>

fun refineLeftHandSideExpression :: "node \<Rightarrow> host_error + pattern"
  and refine_ElementList :: "node option list \<Rightarrow> host_error + pattern list"
  and refine_PropertyDefinitionList ::
    "node list \<Rightarrow> pattern list \<times> pattern option \<Rightarrow> host_error + pattern list \<times> pattern option"
where
  "refineLeftHandSideExpression (ArrayLiteral es) =
     (case refine_ElementList es of
        Inl e \<Rightarrow> Inl e
      | Inr ps \<Rightarrow> Inr (P_object [(''type'', P_string ''ArrayAssignmentPattern''),
                                  (''AssignmentElementList'', P_array ps)]))"
| "refineLeftHandSideExpression (ObjectLiteral ds) =
     (case refine_PropertyDefinitionList ds ([], None) of
        Inl e \<Rightarrow> Inl e
      | Inr (ps, rest) \<Rightarrow>
          Inr (P_object ([(''type'', P_string ''ObjectAssignmentPattern''),
                          (''AssignmentPropertyList'', P_array ps)] @
                         (case rest of None \<Rightarrow> [] | Some r \<Rightarrow> [(''AssignmentRestProperty'', r)]))))"
| "refineLeftHandSideExpression (PropertyDefinition pn ae) =
     (case ae of
        None \<Rightarrow> Inl TypeError
      | Some (AssignmentExpression l opr r) \<Rightarrow>
          Inr (P_object [(''type'', P_string ''AssignmentProperty''),
                         (''PropertyName'', name_field pn),
                         (''AssignmentElement'',
                            P_object [(''type'', P_string ''AssignmentElement''),
                                      (''DestructuringAssignmentTarget'', P_node l),
                                      (''AssignmentExpression'', P_node r)])])
      | Some a \<Rightarrow>
          Inr (P_object [(''type'', P_string ''AssignmentProperty''),
                         (''PropertyName'', name_field pn),
                         (''AssignmentElement'',
                            P_object [(''type'', P_string ''AssignmentElement''),
                                      (''DestructuringAssignmentTarget'', P_node a),
                                      (''Initializer'', P_undefined)])]))"
| "refineLeftHandSideExpression (IdentifierReference x) =
     Inr (P_object [(''type'', P_string ''AssignmentProperty''),
                    (''IdentifierReference'', P_node (IdentifierReference x)),
                    (''Initializer'', P_undefined)])"
| "refineLeftHandSideExpression (CoverInitializedName i d) =
     Inr (P_object [(''type'', P_string ''AssignmentProperty''),
                    (''IdentifierReference'', P_node i),
                    (''Initializer'', P_node d)])"
| "refineLeftHandSideExpression (AssignmentExpression l opr r) =
     Inr (P_object [(''type'', P_string ''AssignmentElement''),
                    (''DestructuringAssignmentTarget'', P_node l),
                    (''Initializer'', P_node r)])"
| "refineLeftHandSideExpression (OtherNode t) =
     Inl (OutOfRange ''refineLeftHandSideExpression'' t)"
| "refine_ElementList [] = Inr []"
| "refine_ElementList (None # es) =
     (case refine_ElementList es of Inl e \<Rightarrow> Inl e | Inr ps \<Rightarrow> Inr (P_hole # ps))"
| "refine_ElementList (Some n # es) =
     (case refineLeftHandSideExpression n of
        Inl e \<Rightarrow> Inl e
      | Inr p \<Rightarrow> (case refine_ElementList es of Inl e \<Rightarrow> Inl e | Inr ps \<Rightarrow> Inr (p # ps)))"
| "refine_PropertyDefinitionList [] acc = Inr acc"
| "refine_PropertyDefinitionList (PropertyDefinition Js_null (Some a) # ds) (ps, rest) =
     refine_PropertyDefinitionList ds
       (ps, Some (P_object [(''type'', P_string ''AssignmentRestProperty''),
                            (''DestructuringAssignmentTarget'', P_node a)]))"
| "refine_PropertyDefinitionList (p # ds) (ps, rest) =
     (case refineLeftHandSideExpression p of
        Inl e \<Rightarrow> Inl e
      | Inr q \<Rightarrow> refine_PropertyDefinitionList ds (ps @ [q], rest))"

section \<open>Completion records and the operations of the surrounding runtime\<close>

text \<open>
  Language values. The evaluator compares values with \<^verbatim>\<open>Value.undefined\<close>,
  \<^verbatim>\<open>Value.null\<close>, \<^verbatim>\<open>Value.true\<close> and \<^verbatim>\<open>Value.false\<close> only; every other value is
  \<open>Value_other\<close> of a type the runtime chooses.
\<close>

datatype 'a Value = Value_undefined | Value_null | Value_true | Value_false | Value_other 'a

datatype CompletionType = Type_throw | Type_return | Type_break | Type_continue

datatype 'a abrupt = Abrupt CompletionType "'a Value" "string option"
  \<comment> \<open>kind, value, target\<close>

text \<open>
  A completion record. A bare value or reference and a normal completion holding it are
  the same thing to \<^verbatim>\<open>Q\<close>, \<^verbatim>\<open>X\<close> and \<^verbatim>\<open>ReturnIfAbrupt\<close>, which unwrap the latter;
  the model writes both as \<open>NormalCompletion\<close>.
\<close>

datatype ('x, 'a) Completion = NormalCompletion 'x | AbruptCompletion "'a abrupt"

text \<open>
  The result of indexing the operator table of lines 196 to 209 with a token: the symbol
  of an own property, the member of \<^verbatim>\<open>Object.prototype\<close> that the object literal
  inherits under that name, or \<^verbatim>\<open>undefined\<close>.
\<close>

datatype opText = OpText string | OpInherited string | OpUndefined

definition opText_table :: "(string \<times> string) list" where
  "opText_table =
     [(''**='', ''**''), (''*='', ''*''), (''/='', ''/''), (''%='', ''%''),
      (''+='', ''+''), (''-='', ''-''), (''<<='', ''<<''), (''>>='', ''>>''),
      (''>>>='', ''>>>''), (''&='', ''&''), (''^='', ''^''), (''|='', ''|'')]"

text \<open>
  The property names of \<^verbatim>\<open>Object.prototype\<close> in ECMA-262 (Annex B included): an
  object literal answers a lookup of one of them with the inherited member.
\<close>

definition Object_prototype_names :: "string list" where
  "Object_prototype_names =
     [''constructor'', ''hasOwnProperty'', ''isPrototypeOf'', ''propertyIsEnumerable'',
      ''toLocaleString'', ''toString'', ''valueOf'', ''__proto__'',
      ''__defineGetter__'', ''__defineSetter__'', ''__lookupGetter__'', ''__lookupSetter__'']"

definition opText_lookup :: "string \<Rightarrow> opText" where
  "opText_lookup assignmentOpText =
     (case map_of opText_table assignmentOpText of
        Some s \<Rightarrow> OpText s
      | None \<Rightarrow> if assignmentOpText \<in> set Object_prototype_names
                then OpInherited assignmentOpText else OpUndefined)"

text \<open>
  The collaborators imported in lines 1 to 19, as parameters. \<open>'r\<close> is what evaluating an
  expression yields (a reference or a value), \<open>'n\<close> a referenced name, \<open>'s\<close> the state of
  the runtime (environments, heap). An operation that can run user code takes the state
  and returns the new one. \<^verbatim>\<open>GetValue\<close> and \<^verbatim>\<open>PutValue\<close> receive whatever the evaluator
  hands them, completion records included.
\<close>

record ('a, 'r, 'n, 's) runtime =
  Evaluate :: "node \<Rightarrow> 's \<Rightarrow> ('r, 'a) Completion \<times> 's"
  NamedEvaluation :: "node \<Rightarrow> 'n \<Rightarrow> 's \<Rightarrow> ('a Value, 'a) Completion \<times> 's"
  GetValue :: "('r, 'a) Completion \<Rightarrow> 's \<Rightarrow> ('a Value, 'a) Completion \<times> 's"
  PutValue :: "('r, 'a) Completion \<Rightarrow> ('a Value, 'a) Completion \<Rightarrow> 's
                 \<Rightarrow> ('a Value, 'a) Completion \<times> 's"
  ToBoolean :: "'a Value \<Rightarrow> ('a Value, 'a) Completion"
  GetReferencedName :: "'r \<Rightarrow> 'n"
  IsAnonymousFunctionDefinition :: "node \<Rightarrow> bool"
  IsIdentifierRef :: "node \<Rightarrow> bool"
  ApplyStringOrNumericBinaryOperator :: "'a Value \<Rightarrow> opText \<Rightarrow> 'a Value \<Rightarrow> 's
                 \<Rightarrow> ('a Value, 'a) Completion \<times> 's"
  DestructuringAssignmentEvaluation :: "pattern \<Rightarrow> 'a Value \<Rightarrow> 's
                 \<Rightarrow> ('a Value, 'a) Completion \<times> 's"

text \<open>
  The evaluator's calls of the state-changing collaborators are recorded, in order, with
  their arguments. \<open>C_Evaluate\<close> also says which field of the assignment node was
  evaluated.
\<close>

datatype position = Target | Source

datatype ('a, 'r, 'n) call =
    C_Evaluate position node
  | C_NamedEvaluation node 'n
  | C_GetValue "('r, 'a) Completion"
  | C_PutValue "('r, 'a) Completion" "('a Value, 'a) Completion"
  | C_Apply "'a Value" opText "'a Value"
  | C_Destructuring pattern "'a Value"

type_synonym ('a, 'r, 'n, 's) world = "('a, 'r, 'n) call list \<times> 's"

definition call_Evaluate ::
  "('a, 'r, 'n, 's) runtime \<Rightarrow> position \<Rightarrow> node \<Rightarrow> ('a, 'r, 'n, 's) world
     \<Rightarrow> ('r, 'a) Completion \<times> ('a, 'r, 'n, 's) world" where
  "call_Evaluate rt pos n w =
     (case Evaluate rt n (snd w) of (c, s') \<Rightarrow> (c, (fst w @ [C_Evaluate pos n], s')))"

definition call_NamedEvaluation ::
  "('a, 'r, 'n, 's) runtime \<Rightarrow> node \<Rightarrow> 'n \<Rightarrow> ('a, 'r, 'n, 's) world
     \<Rightarrow> ('a Value, 'a) Completion \<times> ('a, 'r, 'n, 's) world" where
  "call_NamedEvaluation rt n name w =
     (case NamedEvaluation rt n name (snd w) of
        (c, s') \<Rightarrow> (c, (fst w @ [C_NamedEvaluation n name], s')))"

definition call_GetValue ::
  "('a, 'r, 'n, 's) runtime \<Rightarrow> ('r, 'a) Completion \<Rightarrow> ('a, 'r, 'n, 's) world
     \<Rightarrow> ('a Value, 'a) Completion \<times> ('a, 'r, 'n, 's) world" where
  "call_GetValue rt v w =
     (case GetValue rt v (snd w) of (c, s') \<Rightarrow> (c, (fst w @ [C_GetValue v], s')))"

definition call_PutValue ::
  "('a, 'r, 'n, 's) runtime \<Rightarrow> ('r, 'a) Completion \<Rightarrow> ('a Value, 'a) Completion
     \<Rightarrow> ('a, 'r, 'n, 's) world \<Rightarrow> ('a Value, 'a) Completion \<times> ('a, 'r, 'n, 's) world" where
  "call_PutValue rt v x w =
     (case PutValue rt v x (snd w) of (c, s') \<Rightarrow> (c, (fst w @ [C_PutValue v x], s')))"

definition call_Apply ::
  "('a, 'r, 'n, 's) runtime \<Rightarrow> 'a Value \<Rightarrow> opText \<Rightarrow> 'a Value \<Rightarrow> ('a, 'r, 'n, 's) world
     \<Rightarrow> ('a Value, 'a) Completion \<times> ('a, 'r, 'n, 's) world" where
  "call_Apply rt lval opr rval w =
     (case ApplyStringOrNumericBinaryOperator rt lval opr rval (snd w) of
        (c, s') \<Rightarrow> (c, (fst w @ [C_Apply lval opr rval], s')))"

definition call_Destructuring ::
  "('a, 'r, 'n, 's) runtime \<Rightarrow> pattern \<Rightarrow> 'a Value \<Rightarrow> ('a, 'r, 'n, 's) world
     \<Rightarrow> ('a Value, 'a) Completion \<times> ('a, 'r, 'n, 's) world" where
  "call_Destructuring rt p rval w =
     (case DestructuringAssignmentEvaluation rt p rval (snd w) of
        (c, s') \<Rightarrow> (c, (fst w @ [C_Destructuring p rval], s')))"

section \<open>The assignment operator evaluator\<close>

type_synonym ('a, 'r, 'n, 's) outcome =
  "(host_error + ('a Value, 'a) Completion) \<times> ('a, 'r, 'n, 's) world"

text \<open>
  \<^verbatim>\<open>Q(PutValue(lref, x)); return x;\<close> which ends the plain, the logical and the compound
  branches (lines 115 to 117, 145 to 147, 164 to 166, 181 to 183, 213 to 215).
\<close>

definition store_and_return ::
  "('a, 'r, 'n, 's) runtime \<Rightarrow> ('r, 'a) Completion \<Rightarrow> ('a Value, 'a) Completion
     \<Rightarrow> ('a, 'r, 'n, 's) world \<Rightarrow> ('a, 'r, 'n, 's) outcome" where
  "store_and_return rt lref x w =
     (case call_PutValue rt lref x w of
        (AbruptCompletion e, w') \<Rightarrow> (Inr (AbruptCompletion e), w')
      | (NormalCompletion _, w') \<Rightarrow> (Inr x, w'))"

text \<open>
  \<^verbatim>\<open>rref = yield* Evaluate(AssignmentExpression); rval = Q(GetValue(rref));
  Q(PutValue(lref, rval)); return rval;\<close> as in lines 110 to 117, 141 to 147, 160 to 166
  and 177 to 183.
\<close>

definition assign_source ::
  "('a, 'r, 'n, 's) runtime \<Rightarrow> ('r, 'a) Completion \<Rightarrow> node
     \<Rightarrow> ('a, 'r, 'n, 's) world \<Rightarrow> ('a, 'r, 'n, 's) outcome" where
  "assign_source rt lref AE w =
     (case call_Evaluate rt Source AE w of
        (rref, w1) \<Rightarrow>
          (case call_GetValue rt rref w1 of
             (AbruptCompletion e, w2) \<Rightarrow> (Inr (AbruptCompletion e), w2)
           | (NormalCompletion rval, w2) \<Rightarrow> store_and_return rt lref (NormalCompletion rval) w2))"

fun is_destructuring_target :: "node \<Rightarrow> bool" where
  "is_destructuring_target (ObjectLiteral _) = True"
| "is_destructuring_target (ArrayLiteral _) = True"
| "is_destructuring_target _ = False"

text \<open>
  \<^verbatim>\<open>Evaluate_AssignmentExpression\<close>, lines 93 to 217, started with an empty record of
  calls in state \<open>s\<close>. The three arguments after the runtime are the fields of the
  assignment node.
\<close>

definition Evaluate_AssignmentExpression ::
  "('a, 'r, 'n, 's) runtime \<Rightarrow> node \<Rightarrow> string \<Rightarrow> node \<Rightarrow> 's \<Rightarrow> ('a, 'r, 'n, 's) outcome" where
  "Evaluate_AssignmentExpression rt LHS AssignmentOperator AE s =
    (if AssignmentOperator = ''='' then
       (if \<not> is_destructuring_target LHS then
          (case call_Evaluate rt Target LHS ([], s) of
             (AbruptCompletion e, w1) \<Rightarrow> (Inr (AbruptCompletion e), w1)
           | (NormalCompletion lref, w1) \<Rightarrow>
               (if IsAnonymousFunctionDefinition rt AE \<and> IsIdentifierRef rt LHS then
                  (case call_NamedEvaluation rt AE (GetReferencedName rt lref) w1 of
                     (rval, w2) \<Rightarrow> store_and_return rt (NormalCompletion lref) rval w2)
                else assign_source rt (NormalCompletion lref) AE w1))
        else
          (case refineLeftHandSideExpression LHS of
             Inl err \<Rightarrow> (Inl err, ([], s))
           | Inr assignmentPattern \<Rightarrow>
               (case call_Evaluate rt Source AE ([], s) of
                  (rref, w1) \<Rightarrow>
                    (case call_GetValue rt rref w1 of
                       (AbruptCompletion e, w2) \<Rightarrow> (Inr (AbruptCompletion e), w2)
                     | (NormalCompletion rval, w2) \<Rightarrow>
                         (case call_Destructuring rt assignmentPattern rval w2 of
                            (AbruptCompletion e, w3) \<Rightarrow> (Inr (AbruptCompletion e), w3)
                          | (NormalCompletion _, w3) \<Rightarrow> (Inr (NormalCompletion rval), w3))))))
     else if AssignmentOperator = ''&&='' then
       (case call_Evaluate rt Target LHS ([], s) of
          (lref, w1) \<Rightarrow>
            (case call_GetValue rt lref w1 of
               (AbruptCompletion e, w2) \<Rightarrow> (Inr (AbruptCompletion e), w2)
             | (NormalCompletion lval, w2) \<Rightarrow>
                 (case ToBoolean rt lval of
                    AbruptCompletion e \<Rightarrow> (Inl AssertionError, w2)
                  | NormalCompletion lbool \<Rightarrow>
                      if lbool = Value_false then (Inr (NormalCompletion lval), w2)
                      else assign_source rt lref AE w2)))
     else if AssignmentOperator = ''||='' then
       (case call_Evaluate rt Target LHS ([], s) of
          (lref, w1) \<Rightarrow>
            (case call_GetValue rt lref w1 of
               (AbruptCompletion e, w2) \<Rightarrow> (Inr (AbruptCompletion e), w2)
             | (NormalCompletion lval, w2) \<Rightarrow>
                 (case ToBoolean rt lval of
                    AbruptCompletion e \<Rightarrow> (Inl AssertionError, w2)
                  | NormalCompletion lbool \<Rightarrow>
                      if lbool = Value_true then (Inr (NormalCompletion lval), w2)
                      else assign_source rt lref AE w2)))
     else if AssignmentOperator = ''??='' then
       (case call_Evaluate rt Target LHS ([], s) of
          (lref, w1) \<Rightarrow>
            (case call_GetValue rt lref w1 of
               (AbruptCompletion e, w2) \<Rightarrow> (Inr (AbruptCompletion e), w2)
             | (NormalCompletion lval, w2) \<Rightarrow>
                 if lval \<noteq> Value_undefined \<and> lval \<noteq> Value_null
                 then (Inr (NormalCompletion lval), w2)
                 else assign_source rt lref AE w2))
     else
       (case call_Evaluate rt Target LHS ([], s) of
          (lref, w1) \<Rightarrow>
            (case call_GetValue rt lref w1 of
               (AbruptCompletion e, w2) \<Rightarrow> (Inr (AbruptCompletion e), w2)
             | (NormalCompletion lval, w2) \<Rightarrow>
                 (case call_Evaluate rt Source AE w2 of
                    (rref, w3) \<Rightarrow>
                      (case call_GetValue rt rref w3 of
                         (AbruptCompletion e, w4) \<Rightarrow> (Inr (AbruptCompletion e), w4)
                       | (NormalCompletion rval, w4) \<Rightarrow>
                           (case call_Apply rt lval (opText_lookup AssignmentOperator) rval w4 of
                              (r, w5) \<Rightarrow> store_and_return rt lref r w5))))))"

text \<open>What a run returned, which calls it made, and the state it left.\<close>

definition result_of :: "('a, 'r, 'n, 's) outcome \<Rightarrow> host_error + ('a Value, 'a) Completion" where
  "result_of out = fst out"

definition calls_of :: "('a, 'r, 'n, 's) outcome \<Rightarrow> ('a, 'r, 'n) call list" where
  "calls_of out = fst (snd out)"

definition state_of :: "('a, 'r, 'n, 's) outcome \<Rightarrow> 's" where
  "state_of out = snd (snd out)"

text \<open>
  Observations on a record of calls. The source expression is evaluated by
  \<^verbatim>\<open>Evaluate(AssignmentExpression)\<close> or by \<^verbatim>\<open>NamedEvaluation(AssignmentExpression, name)\<close>.
  The evaluator writes to its target through \<^verbatim>\<open>PutValue(lref, x)\<close>, or through
  \<^verbatim>\<open>DestructuringAssignmentEvaluation(pattern, x)\<close> when the target is a pattern; \<open>x\<close> is
  the value handed to the store.
\<close>

fun is_source_evaluation :: "('a, 'r, 'n) call \<Rightarrow> bool" where
  "is_source_evaluation (C_Evaluate Source _) = True"
| "is_source_evaluation (C_NamedEvaluation _ _) = True"
| "is_source_evaluation _ = False"

definition source_evaluations :: "('a, 'r, 'n) call list \<Rightarrow> nat" where
  "source_evaluations cs = length (filter is_source_evaluation cs)"

fun is_store :: "('a, 'r, 'n) call \<Rightarrow> bool" where
  "is_store (C_PutValue _ _) = True"
| "is_store (C_Destructuring _ _) = True"
| "is_store _ = False"

definition store_calls :: "('a, 'r, 'n) call list \<Rightarrow> ('a, 'r, 'n) call list" where
  "store_calls cs = filter is_store cs"

fun stored_value :: "('a, 'r, 'n) call \<Rightarrow> ('a Value, 'a) Completion option" where
  "stored_value (C_PutValue _ x) = Some x"
| "stored_value (C_Destructuring _ v) = Some (NormalCompletion v)"
| "stored_value _ = None"

text \<open>
  The tests of the logical operators in the words of the specification: when the
  evaluator stops with the current value of the target, and when it goes on to the source.
\<close>

definition short_circuits :: "('a, 'r, 'n, 's) runtime \<Rightarrow> string \<Rightarrow> 'a Value \<Rightarrow> bool" where
  "short_circuits rt opr lval =
     (opr = ''&&='' \<and> ToBoolean rt lval = NormalCompletion Value_false \<or>
      opr = ''||='' \<and> ToBoolean rt lval = NormalCompletion Value_true \<or>
      opr = ''??='' \<and> lval \<noteq> Value_undefined \<and> lval \<noteq> Value_null)"


text \<open>
  An operator token is a non-empty text of punctuator characters, as the lexer produces
  for an operator.
\<close>

definition is_punctuator_char :: "char \<Rightarrow> bool" where
  "is_punctuator_char c = (c \<in> set ''{}()[].;,<>=!+-*/%&|^~?:'')"

definition is_operator_token :: "string \<Rightarrow> bool" where
  "is_operator_token t = (t \<noteq> [] \<and> list_all is_punctuator_char t)"

text \<open>
  What an element of an array literal becomes in the element list of the pattern: an
  empty slot stays an empty slot, a node becomes its refinement.
\<close>

definition refines_to :: "node option \<Rightarrow> pattern \<Rightarrow> bool" where
  "refines_to e q =
     (case e of None \<Rightarrow> q = P_hole | Some n \<Rightarrow> refineLeftHandSideExpression n = Inr q)"

definition refinable :: "node option \<Rightarrow> bool" where
  "refinable e =
     (case e of None \<Rightarrow> True
      | Some n \<Rightarrow> (case refineLeftHandSideExpression n of Inl err \<Rightarrow> False | Inr q \<Rightarrow> True))"

section \<open>A small runtime to run the evaluator on\<close>

text \<open>
  Bindings of identifiers to values. \<open>Value_other 0\<close> stands for a symbol, which the
  operator \<^verbatim>\<open>+\<close> rejects with a thrown error; \<open>Value_other n\<close> for the number \<open>n\<close>
  otherwise. The operations that receive a completion record return an abrupt one
  unchanged before doing anything else.
\<close>

datatype demo_ref = Binding string | Temporary "nat Value"

type_synonym demo_state = "(string \<times> nat Value) list"

definition ReferenceError :: "nat abrupt" where
  "ReferenceError = Abrupt Type_throw (Value_other 404) None"

definition OperandError :: "nat abrupt" where
  "OperandError = Abrupt Type_throw (Value_other 500) None"

fun demo_Evaluate :: "node \<Rightarrow> demo_state \<Rightarrow> (demo_ref, nat) Completion \<times> demo_state" where
  "demo_Evaluate (IdentifierReference x) s = (NormalCompletion (Binding x), s)"
| "demo_Evaluate (OtherNode t) s =
     (if t = ''undefined'' then (NormalCompletion (Temporary Value_undefined), s)
      else if t = ''null'' then (NormalCompletion (Temporary Value_null), s)
      else if t = ''true'' then (NormalCompletion (Temporary Value_true), s)
      else if t = ''false'' then (NormalCompletion (Temporary Value_false), s)
      else if t = ''symbol'' then (NormalCompletion (Temporary (Value_other 0)), s)
      else if t = ''a = 5, 1'' then
        (NormalCompletion (Temporary (Value_other 1)), (''a'', Value_other 5) # s)
      else (NormalCompletion (Temporary (Value_other 7)), s))"
| "demo_Evaluate n s = (AbruptCompletion OperandError, s)"

fun demo_GetValue ::
  "(demo_ref, nat) Completion \<Rightarrow> demo_state \<Rightarrow> (nat Value, nat) Completion \<times> demo_state" where
  "demo_GetValue (AbruptCompletion e) s = (AbruptCompletion e, s)"
| "demo_GetValue (NormalCompletion (Temporary v)) s = (NormalCompletion v, s)"
| "demo_GetValue (NormalCompletion (Binding x)) s =
     (case map_of s x of
        None \<Rightarrow> (AbruptCompletion ReferenceError, s)
      | Some v \<Rightarrow> (NormalCompletion v, s))"

fun demo_PutValue ::
  "(demo_ref, nat) Completion \<Rightarrow> (nat Value, nat) Completion \<Rightarrow> demo_state
     \<Rightarrow> (nat Value, nat) Completion \<times> demo_state" where
  "demo_PutValue (AbruptCompletion e) w s = (AbruptCompletion e, s)"
| "demo_PutValue (NormalCompletion v) (AbruptCompletion e) s = (AbruptCompletion e, s)"
| "demo_PutValue (NormalCompletion (Temporary v)) (NormalCompletion w) s =
     (AbruptCompletion ReferenceError, s)"
| "demo_PutValue (NormalCompletion (Binding x)) (NormalCompletion w) s =
     (NormalCompletion Value_undefined, (x, w) # s)"

fun demo_ToBoolean :: "nat Value \<Rightarrow> (nat Value, nat) Completion" where
  "demo_ToBoolean Value_true = NormalCompletion Value_true"
| "demo_ToBoolean (Value_other (Suc n)) = NormalCompletion Value_true"
| "demo_ToBoolean v = NormalCompletion Value_false"

fun demo_GetReferencedName :: "demo_ref \<Rightarrow> string" where
  "demo_GetReferencedName (Binding x) = x"
| "demo_GetReferencedName (Temporary v) = []"

fun demo_Apply ::
  "nat Value \<Rightarrow> opText \<Rightarrow> nat Value \<Rightarrow> demo_state \<Rightarrow> (nat Value, nat) Completion \<times> demo_state" where
  "demo_Apply (Value_other (Suc a)) (OpText opr) (Value_other (Suc b)) s =
     (if opr = ''+'' then (NormalCompletion (Value_other (Suc a + Suc b)), s)
      else (NormalCompletion (Value_other 1), s))"
| "demo_Apply lval opr rval s = (AbruptCompletion OperandError, s)"

definition demo_runtime :: "(nat, demo_ref, string, demo_state) runtime" where
  "demo_runtime =
     \<lparr> Evaluate = demo_Evaluate,
       NamedEvaluation = (\<lambda>n name s. (NormalCompletion (Value_other (length name)), s)),
       GetValue = demo_GetValue,
       PutValue = demo_PutValue,
       ToBoolean = demo_ToBoolean,
       GetReferencedName = demo_GetReferencedName,
       IsAnonymousFunctionDefinition = (\<lambda>n. n = OtherNode ''function () {}''),
       IsIdentifierRef = (\<lambda>n. case n of IdentifierReference x \<Rightarrow> True | _ \<Rightarrow> False),
       ApplyStringOrNumericBinaryOperator = demo_Apply,
       DestructuringAssignmentEvaluation = (\<lambda>p v s. (NormalCompletion Value_undefined, s)) \<rparr>"

text \<open>The same runtime with a store that fails by itself, whatever it is given.\<close>

definition failing_store_runtime :: "(nat, demo_ref, string, demo_state) runtime" where
  "failing_store_runtime =
     demo_runtime \<lparr> PutValue := (\<lambda>v w s. (AbruptCompletion ReferenceError, s)) \<rparr>"

section \<open>The assignment pattern refiner\<close>

lemma refine_ElementList_Inr_D:
  "refine_ElementList es = Inr ps \<Longrightarrow> list_all2 refines_to es ps"
proof (induction es arbitrary: ps)
  case Nil
  then show ?case by simp
next
  case (Cons e es)
  from Cons.prems obtain qs where qs: "refine_ElementList es = Inr qs"
    by (cases e; cases "refine_ElementList es") (auto split: sum.splits)
  show ?case
  proof (cases e)
    case None
    with Cons.prems qs have "ps = P_hole # qs" by simp
    with Cons.IH [OF qs] None show ?thesis by (simp add: refines_to_def)
  next
    case (Some n)
    with Cons.prems obtain q where q: "refineLeftHandSideExpression n = Inr q"
      by (cases "refineLeftHandSideExpression n") simp_all
    with Cons.prems Some qs have "ps = q # qs" by simp
    with Cons.IH [OF qs] Some q show ?thesis by (simp add: refines_to_def)
  qed
qed

lemma refine_ElementList_Inr_I:
  "list_all2 refines_to es ps \<Longrightarrow> refine_ElementList es = Inr ps"
  by (induction es ps rule: list_all2_induct) (auto simp: refines_to_def split: option.splits)

lemma refine_ElementList_Inr_iff:
  "(refine_ElementList es = Inr ps) = list_all2 refines_to es ps"
  using refine_ElementList_Inr_D refine_ElementList_Inr_I by blast

lemma refine_ElementList_unhandled:
  "list_all refinable pre \<Longrightarrow>
     refine_ElementList (pre @ Some (OtherNode t) # post) =
       Inl (OutOfRange ''refineLeftHandSideExpression'' t)"
proof (induction pre)
  case Nil
  then show ?case by simp
next
  case (Cons e pre)
  then show ?case
    by (cases e) (auto simp: refinable_def split: sum.splits)
qed

text \<open>
  Claim C4, as the code has it. The refinement of an array literal succeeds exactly when
  every element that is present refines, and then it is the array pattern whose element
  list holds the refinements in order; an element that is absent from the list is passed
  over by \<^verbatim>\<open>map\<close> and is an empty slot of that list again: no element with an absent
  target is built for it. A hole that the syntax tree gives as a node (\<^verbatim>\<open>Elision\<close>) has
  a type the \<^verbatim>\<open>switch\<close> does not name: when the elements before it refine, the
  \<^verbatim>\<open>default\<close> case throws \<^verbatim>\<open>OutOfRange\<close> with that type, and the array literal is not
  refined.
\<close>

theorem refine_ArrayLiteral_elements:
  "((refineLeftHandSideExpression (ArrayLiteral es) = Inr p) =
      (\<exists>ps. p = P_object [(''type'', P_string ''ArrayAssignmentPattern''),
                          (''AssignmentElementList'', P_array ps)] \<and>
            list_all2 refines_to es ps)) \<and>
   (list_all refinable pre \<longrightarrow>
      refineLeftHandSideExpression (ArrayLiteral (pre @ Some (OtherNode t) # post)) =
        Inl (OutOfRange ''refineLeftHandSideExpression'' t))"
proof (intro conjI impI)
  show "(refineLeftHandSideExpression (ArrayLiteral es) = Inr p) =
      (\<exists>ps. p = P_object [(''type'', P_string ''ArrayAssignmentPattern''),
                          (''AssignmentElementList'', P_array ps)] \<and>
            list_all2 refines_to es ps)"
    unfolding refine_ElementList_Inr_iff [symmetric]
    by (auto split: sum.splits)
next
  assume "list_all refinable pre"
  then show "refineLeftHandSideExpression (ArrayLiteral (pre @ Some (OtherNode t) # post)) =
        Inl (OutOfRange ''refineLeftHandSideExpression'' t)"
    by (simp add: refine_ElementList_unhandled)
qed

theorem refine_ArrayLiteral_elements_witness:
  "list_all refinable
     [None, Some (AssignmentExpression (IdentifierReference ''a'') ''='' (OtherNode ''9''))] \<and>
   refineLeftHandSideExpression
     (ArrayLiteral [None,
                    Some (AssignmentExpression (IdentifierReference ''a'') ''='' (OtherNode ''9'')),
                    Some (OtherNode ''Elision'')])
     = Inl (OutOfRange ''refineLeftHandSideExpression'' ''Elision'') \<and>
   refineLeftHandSideExpression
     (ArrayLiteral [None,
                    Some (AssignmentExpression (IdentifierReference ''a'') ''='' (OtherNode ''9''))])
     = Inr (P_object [(''type'', P_string ''ArrayAssignmentPattern''),
                      (''AssignmentElementList'',
                       P_array [P_hole,
                                P_object [(''type'', P_string ''AssignmentElement''),
                                          (''DestructuringAssignmentTarget'',
                                           P_node (IdentifierReference ''a'')),
                                          (''Initializer'', P_node (OtherNode ''9''))]])])"
proof -
  have h: "list_all refinable
     [None, Some (AssignmentExpression (IdentifierReference ''a'') ''='' (OtherNode ''9''))]"
    by (simp add: refinable_def)
  have r: "list_all2 refines_to
     [None, Some (AssignmentExpression (IdentifierReference ''a'') ''='' (OtherNode ''9''))]
     [P_hole,
      P_object [(''type'', P_string ''AssignmentElement''),
                (''DestructuringAssignmentTarget'', P_node (IdentifierReference ''a'')),
                (''Initializer'', P_node (OtherNode ''9''))]]"
    by (simp add: refines_to_def)
  note w = refine_ArrayLiteral_elements
    [of "[None, Some (AssignmentExpression (IdentifierReference ''a'') ''='' (OtherNode ''9''))]" _
        "[None, Some (AssignmentExpression (IdentifierReference ''a'') ''='' (OtherNode ''9''))]"
        "''Elision''" "[]"]
  from w h have a: "refineLeftHandSideExpression
     (ArrayLiteral ([None,
                    Some (AssignmentExpression (IdentifierReference ''a'') ''='' (OtherNode ''9''))] @
                    Some (OtherNode ''Elision'') # []))
     = Inl (OutOfRange ''refineLeftHandSideExpression'' ''Elision'')"
    by blast
  from w r have b: "refineLeftHandSideExpression
     (ArrayLiteral [None,
                    Some (AssignmentExpression (IdentifierReference ''a'') ''='' (OtherNode ''9''))])
     = Inr (P_object [(''type'', P_string ''ArrayAssignmentPattern''),
                      (''AssignmentElementList'',
                       P_array [P_hole,
                                P_object [(''type'', P_string ''AssignmentElement''),
                                          (''DestructuringAssignmentTarget'',
                                           P_node (IdentifierReference ''a'')),
                                          (''Initializer'', P_node (OtherNode ''9''))]])])"
    by blast
  from h a b show ?thesis by simp
qed

text \<open>
  Claim C4 as stated fails for the pattern \<^verbatim>\<open>[, a = 9]\<close> with its hole given as an
  \<^verbatim>\<open>Elision\<close> node: the hole does not pass through as an element with an absent target,
  the refiner throws.
\<close>

theorem array_hole_counterexample:
  "refineLeftHandSideExpression
     (ArrayLiteral [Some (OtherNode ''Elision''),
                    Some (AssignmentExpression (IdentifierReference ''a'') ''='' (OtherNode ''9''))])
     = Inl (OutOfRange ''refineLeftHandSideExpression'' ''Elision'')"
  by simp

text \<open>
  Claim C5 fails on the code for a property whose value is an assignment expression
  \<^verbatim>\<open>target = default\<close> (lines 50 to 55): the element produced carries the default in a
  field named \<^verbatim>\<open>AssignmentExpression\<close> and has no \<^verbatim>\<open>Initializer\<close> field, so its
  initializer reads as \<^verbatim>\<open>undefined\<close>. The sibling cases (lines 56 to 60 and 74 to 79)
  name the field \<^verbatim>\<open>Initializer\<close>.
\<close>

theorem refine_PropertyDefinition_default_field:
  "refineLeftHandSideExpression (PropertyDefinition pn (Some (AssignmentExpression l opr r))) =
     Inr (P_object [(''type'', P_string ''AssignmentProperty''),
                    (''PropertyName'', name_field pn),
                    (''AssignmentElement'',
                       P_object [(''type'', P_string ''AssignmentElement''),
                                 (''DestructuringAssignmentTarget'', P_node l),
                                 (''AssignmentExpression'', P_node r)])]) \<and>
   get_field (P_object [(''type'', P_string ''AssignmentElement''),
                        (''DestructuringAssignmentTarget'', P_node l),
                        (''AssignmentExpression'', P_node r)]) ''Initializer'' = P_undefined \<and>
   field_names (P_object [(''type'', P_string ''AssignmentElement''),
                          (''DestructuringAssignmentTarget'', P_node l),
                          (''AssignmentExpression'', P_node r)]) =
     [''type'', ''DestructuringAssignmentTarget'', ''AssignmentExpression''] \<and>
   refineLeftHandSideExpression (AssignmentExpression l opr r) =
     Inr (P_object [(''type'', P_string ''AssignmentElement''),
                    (''DestructuringAssignmentTarget'', P_node l),
                    (''Initializer'', P_node r)])"
  by simp

section \<open>The table of compound operators\<close>

lemma opText_lookup_OpText_iff:
  "(opText_lookup t = OpText s) = ((t, s) \<in> set opText_table)"
proof -
  have d: "distinct (map fst opText_table)"
    by (simp add: opText_table_def)
  show ?thesis
    using map_of_eq_Some_iff [OF d, of t s]
    by (auto simp: opText_lookup_def split: option.splits)
qed

text \<open>
  Claim C7. Each of the twelve compound tokens is looked up to its base operator symbol;
  the table has twelve entries with distinct tokens, and a token is looked up to a symbol
  exactly when the pair is an entry of the table.
\<close>

theorem opText_table_exact:
  "opText_lookup ''**='' = OpText ''**'' \<and> opText_lookup ''*='' = OpText ''*'' \<and>
   opText_lookup ''/='' = OpText ''/'' \<and> opText_lookup ''%='' = OpText ''%'' \<and>
   opText_lookup ''+='' = OpText ''+'' \<and> opText_lookup ''-='' = OpText ''-'' \<and>
   opText_lookup ''<<='' = OpText ''<<'' \<and> opText_lookup ''>>='' = OpText ''>>'' \<and>
   opText_lookup ''>>>='' = OpText ''>>>'' \<and> opText_lookup ''&='' = OpText ''&'' \<and>
   opText_lookup ''^='' = OpText ''^'' \<and> opText_lookup ''|='' = OpText ''|'' \<and>
   length opText_table = 12 \<and> distinct (map fst opText_table) \<and>
   (\<forall>t s. (opText_lookup t = OpText s) = ((t, s) \<in> set opText_table))"
  unfolding opText_lookup_OpText_iff
  by (simp add: opText_table_def)

section \<open>Runs of the evaluator\<close>

lemmas run_defs =
  Evaluate_AssignmentExpression_def call_Evaluate_def call_GetValue_def call_PutValue_def
  call_Apply_def call_NamedEvaluation_def call_Destructuring_def store_and_return_def
  assign_source_def result_of_def calls_of_def state_of_def

lemmas obs_defs = source_evaluations_def store_calls_def

lemmas demo_defs = demo_runtime_def failing_store_runtime_def opText_lookup_def opText_table_def

lemma compound_token_not_special:
  "(opr, symb) \<in> set opText_table \<Longrightarrow>
     opr \<noteq> ''='' \<and> opr \<noteq> ''&&='' \<and> opr \<noteq> ''||='' \<and> opr \<noteq> ''??=''"
  by (auto simp: opText_table_def)

lemma store_and_return_normalD:
  assumes "fst (store_and_return rt lref x w) = Inr (NormalCompletion v)"
  shows "x = NormalCompletion v \<and>
         fst (snd (store_and_return rt lref x w)) = fst w @ [C_PutValue lref (NormalCompletion v)]"
  using assms
  by (auto simp: store_and_return_def call_PutValue_def split: prod.splits Completion.splits)

lemma assign_source_normalD:
  assumes "fst (assign_source rt lref AE w) = Inr (NormalCompletion v)"
  shows "\<exists>rref. fst (snd (assign_source rt lref AE w)) =
           fst w @ [C_Evaluate Source AE, C_GetValue rref, C_PutValue lref (NormalCompletion v)]"
  using assms store_and_return_normalD [of rt lref _ _ v]
  by (auto simp: assign_source_def call_Evaluate_def call_GetValue_def
           split: prod.splits Completion.splits)

lemma operator_token_not_inherited:
  "is_operator_token t \<Longrightarrow> t \<notin> set Object_prototype_names"
  by (auto simp: is_operator_token_def is_punctuator_char_def Object_prototype_names_def)

text \<open>
  Claim C1, as the code has it. In a compound assignment whose target and source have
  been read, when the operator returns an abrupt completion the evaluator does not look
  at it (line 211 has no \<^verbatim>\<open>Q\<close>): it calls \<^verbatim>\<open>PutValue(lref, r)\<close> with that completion as
  the value, returns the abrupt completion of the store if the store returns one, and
  the operator's abrupt completion otherwise. When the store answers an abrupt value by
  returning it, the result is the operator's abrupt completion.
\<close>

theorem compound_abrupt_operator_result_handed_to_store:
  assumes "(opr, symb) \<in> set opText_table"
    and "Evaluate rt LHS s = (lref, s1)"
    and "GetValue rt lref s1 = (NormalCompletion lval, s2)"
    and "Evaluate rt AE s2 = (rref, s3)"
    and "GetValue rt rref s3 = (NormalCompletion rval, s4)"
    and "ApplyStringOrNumericBinaryOperator rt lval (OpText symb) rval s4 = (AbruptCompletion e, s5)"
    and "PutValue rt lref (AbruptCompletion e) s5 = (stored, s6)"
  shows "Evaluate_AssignmentExpression rt LHS opr AE s =
           (Inr (case stored of AbruptCompletion e' \<Rightarrow> AbruptCompletion e'
                              | NormalCompletion u \<Rightarrow> AbruptCompletion e),
            [C_Evaluate Target LHS, C_GetValue lref, C_Evaluate Source AE, C_GetValue rref,
             C_Apply lval (OpText symb) rval, C_PutValue lref (AbruptCompletion e)],
            s6)"
proof -
  from assms(1) have ns: "opr \<noteq> ''=''" "opr \<noteq> ''&&=''" "opr \<noteq> ''||=''" "opr \<noteq> ''??=''"
    using compound_token_not_special by blast+
  from assms(1) have lk: "opText_lookup opr = OpText symb"
    by (simp add: opText_lookup_OpText_iff)
  show ?thesis
    using assms(2-) ns lk
    by (simp add: run_defs split: prod.splits Completion.splits)
qed

theorem compound_abrupt_operator_result_handed_to_store_witness:
  "(''+='', ''+'') \<in> set opText_table \<and>
   ApplyStringOrNumericBinaryOperator demo_runtime (Value_other 2) (OpText ''+'') (Value_other 0)
     [(''a'', Value_other 2)] = (AbruptCompletion OperandError, [(''a'', Value_other 2)]) \<and>
   Evaluate_AssignmentExpression demo_runtime (IdentifierReference ''a'') ''+='' (OtherNode ''symbol'')
     [(''a'', Value_other 2)] =
     (Inr (AbruptCompletion OperandError),
      [C_Evaluate Target (IdentifierReference ''a''), C_GetValue (NormalCompletion (Binding ''a'')),
       C_Evaluate Source (OtherNode ''symbol''),
       C_GetValue (NormalCompletion (Temporary (Value_other 0))),
       C_Apply (Value_other 2) (OpText ''+'') (Value_other 0),
       C_PutValue (NormalCompletion (Binding ''a'')) (AbruptCompletion OperandError)],
      [(''a'', Value_other 2)])"
proof -
  have t: "(''+='', ''+'') \<in> set opText_table"
    by (simp add: opText_table_def)
  have e1: "Evaluate demo_runtime (IdentifierReference ''a'') [(''a'', Value_other 2)] =
              (NormalCompletion (Binding ''a''), [(''a'', Value_other 2)])"
    by (simp add: demo_runtime_def)
  have g1: "GetValue demo_runtime (NormalCompletion (Binding ''a'')) [(''a'', Value_other 2)] =
              (NormalCompletion (Value_other 2), [(''a'', Value_other 2)])"
    by (simp add: demo_runtime_def)
  have e2: "Evaluate demo_runtime (OtherNode ''symbol'') [(''a'', Value_other 2)] =
              (NormalCompletion (Temporary (Value_other 0)), [(''a'', Value_other 2)])"
    by (simp add: demo_runtime_def)
  have g2: "GetValue demo_runtime (NormalCompletion (Temporary (Value_other 0))) [(''a'', Value_other 2)] =
              (NormalCompletion (Value_other 0), [(''a'', Value_other 2)])"
    by (simp add: demo_runtime_def)
  have a: "ApplyStringOrNumericBinaryOperator demo_runtime (Value_other 2) (OpText ''+'') (Value_other 0)
             [(''a'', Value_other 2)] = (AbruptCompletion OperandError, [(''a'', Value_other 2)])"
    by (simp add: demo_runtime_def numeral_2_eq_2)
  have p: "PutValue demo_runtime (NormalCompletion (Binding ''a'')) (AbruptCompletion OperandError)
             [(''a'', Value_other 2)] = (AbruptCompletion OperandError, [(''a'', Value_other 2)])"
    by (simp add: demo_runtime_def)
  from compound_abrupt_operator_result_handed_to_store [OF t e1 g1 e2 g2 a p] t a
  show ?thesis by simp
qed

text \<open>
  Claim C1 as stated fails for \<^verbatim>\<open>a += symbol\<close>, where the operator throws: the evaluator
  does call the store on the target reference with the abrupt completion; and with a
  store that fails by itself, the completion returned is the store's, not the operator's.
\<close>

theorem compound_abrupt_operator_counterexample:
  "ApplyStringOrNumericBinaryOperator demo_runtime (Value_other 2) (OpText ''+'') (Value_other 0)
     [(''a'', Value_other 2)] = (AbruptCompletion OperandError, [(''a'', Value_other 2)]) \<and>
   store_calls (calls_of (Evaluate_AssignmentExpression demo_runtime
       (IdentifierReference ''a'') ''+='' (OtherNode ''symbol'') [(''a'', Value_other 2)])) =
     [C_PutValue (NormalCompletion (Binding ''a'')) (AbruptCompletion OperandError)] \<and>
   result_of (Evaluate_AssignmentExpression failing_store_runtime
       (IdentifierReference ''a'') ''+='' (OtherNode ''symbol'') [(''a'', Value_other 2)]) =
     Inr (AbruptCompletion ReferenceError) \<and>
   ReferenceError \<noteq> OperandError"
  by (simp add: run_defs obs_defs demo_defs numeral_2_eq_2 ReferenceError_def OperandError_def)



text \<open>
  Claim C3. In a compound assignment the first two calls are the evaluation of the target
  and the dereferencing of its reference, whatever follows. When both dereferencings
  complete normally, the first five calls are: target, its value \<open>lval\<close>, source, its value,
  and the operator applied to \<open>lval\<close>, the value read in the state \<open>s1\<close> that the
  evaluation of the target left, before the source was evaluated in \<open>s2\<close>.
\<close>

theorem compound_target_read_before_source:
  assumes "(opr, symb) \<in> set opText_table"
    and "Evaluate rt LHS s = (lref, s1)"
  shows "take 2 (calls_of (Evaluate_AssignmentExpression rt LHS opr AE s)) =
           [C_Evaluate Target LHS, C_GetValue lref] \<and>
         (\<forall>lval s2 rref s3 rval s4.
            GetValue rt lref s1 = (NormalCompletion lval, s2) \<and>
            Evaluate rt AE s2 = (rref, s3) \<and>
            GetValue rt rref s3 = (NormalCompletion rval, s4) \<longrightarrow>
            take 5 (calls_of (Evaluate_AssignmentExpression rt LHS opr AE s)) =
              [C_Evaluate Target LHS, C_GetValue lref, C_Evaluate Source AE, C_GetValue rref,
               C_Apply lval (OpText symb) rval])"
proof -
  from assms(1) have ns: "opr \<noteq> ''=''" "opr \<noteq> ''&&=''" "opr \<noteq> ''||=''" "opr \<noteq> ''??=''"
    using compound_token_not_special by blast+
  from assms(1) have lk: "opText_lookup opr = OpText symb"
    by (simp add: opText_lookup_OpText_iff)
  show ?thesis
    using assms(2) ns lk
    by (auto simp: run_defs split: prod.splits Completion.splits)
qed

theorem compound_target_read_before_source_witness:
  "(''+='', ''+'') \<in> set opText_table \<and>
   Evaluate demo_runtime (OtherNode ''a = 5, 1'') [(''a'', Value_other 2)] =
     (NormalCompletion (Temporary (Value_other 1)), [(''a'', Value_other 5), (''a'', Value_other 2)]) \<and>
   take 5 (calls_of (Evaluate_AssignmentExpression demo_runtime
       (IdentifierReference ''a'') ''+='' (OtherNode ''a = 5, 1'') [(''a'', Value_other 2)])) =
     [C_Evaluate Target (IdentifierReference ''a''), C_GetValue (NormalCompletion (Binding ''a'')),
      C_Evaluate Source (OtherNode ''a = 5, 1''),
      C_GetValue (NormalCompletion (Temporary (Value_other 1))),
      C_Apply (Value_other 2) (OpText ''+'') (Value_other 1)]"
proof -
  have t: "(''+='', ''+'') \<in> set opText_table"
    by (simp add: opText_table_def)
  have e1: "Evaluate demo_runtime (IdentifierReference ''a'') [(''a'', Value_other 2)] =
              (NormalCompletion (Binding ''a''), [(''a'', Value_other 2)])"
    by (simp add: demo_runtime_def)
  have g1: "GetValue demo_runtime (NormalCompletion (Binding ''a'')) [(''a'', Value_other 2)] =
              (NormalCompletion (Value_other 2), [(''a'', Value_other 2)])"
    by (simp add: demo_runtime_def)
  have e2: "Evaluate demo_runtime (OtherNode ''a = 5, 1'') [(''a'', Value_other 2)] =
              (NormalCompletion (Temporary (Value_other 1)),
               [(''a'', Value_other 5), (''a'', Value_other 2)])"
    by (simp add: demo_runtime_def)
  have g2: "GetValue demo_runtime (NormalCompletion (Temporary (Value_other 1)))
              [(''a'', Value_other 5), (''a'', Value_other 2)] =
              (NormalCompletion (Value_other 1), [(''a'', Value_other 5), (''a'', Value_other 2)])"
    by (simp add: demo_runtime_def)
  from compound_target_read_before_source [OF t e1, of "OtherNode ''a = 5, 1''"] g1 e2 g2
  have "take 5 (calls_of (Evaluate_AssignmentExpression demo_runtime
       (IdentifierReference ''a'') ''+='' (OtherNode ''a = 5, 1'') [(''a'', Value_other 2)])) =
     [C_Evaluate Target (IdentifierReference ''a''), C_GetValue (NormalCompletion (Binding ''a'')),
      C_Evaluate Source (OtherNode ''a = 5, 1''),
      C_GetValue (NormalCompletion (Temporary (Value_other 1))),
      C_Apply (Value_other 2) (OpText ''+'') (Value_other 1)]"
    by blast
  with t e2 show ?thesis by simp
qed

text \<open>
  Claim C6. For plain \<^verbatim>\<open>=\<close> with a target that is not an array or object literal, once
  the target has been evaluated to a reference: the source is evaluated by
  \<^verbatim>\<open>NamedEvaluation\<close> with the name the reference refers to exactly when the source is an
  anonymous function definition and the target an identifier reference, and it is then
  the second call; in every other case the second and third calls are the ordinary
  evaluation of the source and the dereferencing of its result. Either way the source is
  evaluated once.
\<close>

theorem plain_assignment_named_evaluation_iff:
  assumes "\<not> is_destructuring_target LHS"
    and "Evaluate rt LHS s = (NormalCompletion lref, s1)"
  shows "((C_NamedEvaluation AE (GetReferencedName rt lref)
             \<in> set (calls_of (Evaluate_AssignmentExpression rt LHS ''='' AE s))) =
            (IsAnonymousFunctionDefinition rt AE \<and> IsIdentifierRef rt LHS)) \<and>
         ((C_Evaluate Source AE \<in> set (calls_of (Evaluate_AssignmentExpression rt LHS ''='' AE s))) =
            (\<not> (IsAnonymousFunctionDefinition rt AE \<and> IsIdentifierRef rt LHS))) \<and>
         (IsAnonymousFunctionDefinition rt AE \<and> IsIdentifierRef rt LHS \<longrightarrow>
            take 2 (calls_of (Evaluate_AssignmentExpression rt LHS ''='' AE s)) =
              [C_Evaluate Target LHS, C_NamedEvaluation AE (GetReferencedName rt lref)]) \<and>
         (\<not> (IsAnonymousFunctionDefinition rt AE \<and> IsIdentifierRef rt LHS) \<longrightarrow>
            take 3 (calls_of (Evaluate_AssignmentExpression rt LHS ''='' AE s)) =
              [C_Evaluate Target LHS, C_Evaluate Source AE, C_GetValue (fst (Evaluate rt AE s1))]) \<and>
         source_evaluations (calls_of (Evaluate_AssignmentExpression rt LHS ''='' AE s)) = 1"
  using assms
  by (auto simp: run_defs obs_defs split: prod.splits Completion.splits)

theorem plain_assignment_named_evaluation_iff_witness:
  "IsAnonymousFunctionDefinition demo_runtime (OtherNode ''function () {}'') \<and>
   IsIdentifierRef demo_runtime (IdentifierReference ''x'') \<and>
   take 2 (calls_of (Evaluate_AssignmentExpression demo_runtime
       (IdentifierReference ''x'') ''='' (OtherNode ''function () {}'') [])) =
     [C_Evaluate Target (IdentifierReference ''x''),
      C_NamedEvaluation (OtherNode ''function () {}'') ''x''] \<and>
   \<not> IsAnonymousFunctionDefinition demo_runtime (OtherNode ''7'') \<and>
   take 3 (calls_of (Evaluate_AssignmentExpression demo_runtime
       (IdentifierReference ''x'') ''='' (OtherNode ''7'') [])) =
     [C_Evaluate Target (IdentifierReference ''x''), C_Evaluate Source (OtherNode ''7''),
      C_GetValue (NormalCompletion (Temporary (Value_other 7)))]"
proof -
  have d: "\<not> is_destructuring_target (IdentifierReference ''x'')"
    by simp
  have e1: "Evaluate demo_runtime (IdentifierReference ''x'') [] = (NormalCompletion (Binding ''x''), [])"
    by (simp add: demo_runtime_def)
  have an: "IsAnonymousFunctionDefinition demo_runtime (OtherNode ''function () {}'')"
    and idr: "IsIdentifierRef demo_runtime (IdentifierReference ''x'')"
    and nan: "\<not> IsAnonymousFunctionDefinition demo_runtime (OtherNode ''7'')"
    by (simp_all add: demo_runtime_def)
  have nm: "GetReferencedName demo_runtime (Binding ''x'') = ''x''"
    by (simp add: demo_runtime_def)
  have e2: "fst (Evaluate demo_runtime (OtherNode ''7'') []) = NormalCompletion (Temporary (Value_other 7))"
    by (simp add: demo_runtime_def)
  from plain_assignment_named_evaluation_iff [OF d e1, of "OtherNode ''function () {}''"] an idr nm
  have a: "take 2 (calls_of (Evaluate_AssignmentExpression demo_runtime
       (IdentifierReference ''x'') ''='' (OtherNode ''function () {}'') [])) =
     [C_Evaluate Target (IdentifierReference ''x''),
      C_NamedEvaluation (OtherNode ''function () {}'') ''x'']"
    by simp
  from plain_assignment_named_evaluation_iff [OF d e1, of "OtherNode ''7''"] nan e2
  have b: "take 3 (calls_of (Evaluate_AssignmentExpression demo_runtime
       (IdentifierReference ''x'') ''='' (OtherNode ''7'') [])) =
     [C_Evaluate Target (IdentifierReference ''x''), C_Evaluate Source (OtherNode ''7''),
      C_GetValue (NormalCompletion (Temporary (Value_other 7)))]"
    by simp
  from an idr nan a b show ?thesis by simp
qed

text \<open>
  Claim C8. A plain \<^verbatim>\<open>=\<close> whose target is neither an array nor an object literal and
  that completes normally with value \<open>v\<close> has evaluated its target to a reference, has
  evaluated its source exactly once, by \<^verbatim>\<open>NamedEvaluation\<close> or by \<^verbatim>\<open>Evaluate\<close> and
  \<^verbatim>\<open>GetValue\<close>, to the value \<open>v\<close>, and has made exactly one store: \<^verbatim>\<open>PutValue\<close> of \<open>v\<close>
  into that reference, in the state the source left, which completed normally and left
  the state the run ends in.
\<close>

theorem plain_assignment_source_once_value_stored:
  assumes "\<not> is_destructuring_target LHS"
    and "result_of (Evaluate_AssignmentExpression rt LHS ''='' AE s) = Inr (NormalCompletion v)"
  shows "source_evaluations (calls_of (Evaluate_AssignmentExpression rt LHS ''='' AE s)) = 1 \<and>
         (\<exists>lref s1 s2 u s3.
            Evaluate rt LHS s = (NormalCompletion lref, s1) \<and>
            (if IsAnonymousFunctionDefinition rt AE \<and> IsIdentifierRef rt LHS
             then NamedEvaluation rt AE (GetReferencedName rt lref) s1 = (NormalCompletion v, s2)
             else (\<exists>rref s'. Evaluate rt AE s1 = (rref, s') \<and>
                             GetValue rt rref s' = (NormalCompletion v, s2))) \<and>
            PutValue rt (NormalCompletion lref) (NormalCompletion v) s2 = (NormalCompletion u, s3) \<and>
            state_of (Evaluate_AssignmentExpression rt LHS ''='' AE s) = s3 \<and>
            store_calls (calls_of (Evaluate_AssignmentExpression rt LHS ''='' AE s)) =
              [C_PutValue (NormalCompletion lref) (NormalCompletion v)])"
proof -
  obtain lr s1 where e1: "Evaluate rt LHS s = (lr, s1)"
    by (cases "Evaluate rt LHS s")
  with assms obtain lref where lr: "lr = NormalCompletion lref"
    by (cases lr) (auto simp: run_defs)
  show ?thesis
  proof (cases "IsAnonymousFunctionDefinition rt AE \<and> IsIdentifierRef rt LHS")
    case True
    obtain rv s2 where n: "NamedEvaluation rt AE (GetReferencedName rt lref) s1 = (rv, s2)"
      by (cases "NamedEvaluation rt AE (GetReferencedName rt lref) s1")
    obtain pv s3 where p: "PutValue rt (NormalCompletion lref) rv s2 = (pv, s3)"
      by (cases "PutValue rt (NormalCompletion lref) rv s2")
    from assms e1 lr True n p have rv: "rv = NormalCompletion v"
      by (cases pv) (auto simp: run_defs)
    from assms e1 lr True n p rv obtain u where pv: "pv = NormalCompletion u"
      by (cases pv) (auto simp: run_defs)
    from assms(1) e1 lr True n p rv pv show ?thesis
      by (simp add: run_defs obs_defs)
  next
    case False
    obtain rref s' where e2: "Evaluate rt AE s1 = (rref, s')"
      by (cases "Evaluate rt AE s1")
    obtain gv s2 where g: "GetValue rt rref s' = (gv, s2)"
      by (cases "GetValue rt rref s'")
    from assms e1 lr False e2 g have gv: "gv = NormalCompletion v"
      by (cases gv) (auto simp: run_defs split: prod.splits Completion.splits)
    obtain pv s3 where p: "PutValue rt (NormalCompletion lref) (NormalCompletion v) s2 = (pv, s3)"
      by (cases "PutValue rt (NormalCompletion lref) (NormalCompletion v) s2")
    from assms e1 lr False e2 g gv p obtain u where pv: "pv = NormalCompletion u"
      by (cases pv) (auto simp: run_defs)
    from False have c: "(IsAnonymousFunctionDefinition rt AE \<and> IsIdentifierRef rt LHS) = False"
      by simp
    have run: "Evaluate_AssignmentExpression rt LHS ''='' AE s =
        (Inr (NormalCompletion v),
         [C_Evaluate Target LHS, C_Evaluate Source AE, C_GetValue rref,
          C_PutValue (NormalCompletion lref) (NormalCompletion v)],
         s3)"
      using assms(1) e1 lr e2 g gv p pv
      by (simp add: run_defs c)
    have "source_evaluations (calls_of (Evaluate_AssignmentExpression rt LHS ''='' AE s)) = 1"
      by (simp add: run calls_of_def obs_defs)
    moreover have "state_of (Evaluate_AssignmentExpression rt LHS ''='' AE s) = s3"
      by (simp add: run state_of_def)
    moreover have "store_calls (calls_of (Evaluate_AssignmentExpression rt LHS ''='' AE s)) =
        [C_PutValue (NormalCompletion lref) (NormalCompletion v)]"
      by (simp add: run calls_of_def obs_defs)
    ultimately show ?thesis
      using e1 lr e2 g gv p pv c by auto
  qed
qed

theorem plain_assignment_source_once_value_stored_witness:
  "\<not> is_destructuring_target (IdentifierReference ''x'') \<and>
   result_of (Evaluate_AssignmentExpression demo_runtime
       (IdentifierReference ''x'') ''='' (OtherNode ''7'') []) = Inr (NormalCompletion (Value_other 7)) \<and>
   source_evaluations (calls_of (Evaluate_AssignmentExpression demo_runtime
       (IdentifierReference ''x'') ''='' (OtherNode ''7'') [])) = 1 \<and>
   PutValue demo_runtime (NormalCompletion (Binding ''x'')) (NormalCompletion (Value_other 7)) [] =
     (NormalCompletion Value_undefined, [(''x'', Value_other 7)]) \<and>
   state_of (Evaluate_AssignmentExpression demo_runtime
       (IdentifierReference ''x'') ''='' (OtherNode ''7'') []) = [(''x'', Value_other 7)] \<and>
   store_calls (calls_of (Evaluate_AssignmentExpression demo_runtime
       (IdentifierReference ''x'') ''='' (OtherNode ''7'') [])) =
     [C_PutValue (NormalCompletion (Binding ''x'')) (NormalCompletion (Value_other 7))]"
proof -
  have d: "\<not> is_destructuring_target (IdentifierReference ''x'')"
    by simp
  have r: "result_of (Evaluate_AssignmentExpression demo_runtime
       (IdentifierReference ''x'') ''='' (OtherNode ''7'') []) = Inr (NormalCompletion (Value_other 7))"
    by (simp add: run_defs demo_runtime_def)
  have e1: "Evaluate demo_runtime (IdentifierReference ''x'') [] = (NormalCompletion (Binding ''x''), [])"
    by (simp add: demo_runtime_def)
  have na: "\<not> IsAnonymousFunctionDefinition demo_runtime (OtherNode ''7'')"
    by (simp add: demo_runtime_def)
  have e2: "Evaluate demo_runtime (OtherNode ''7'') [] = (NormalCompletion (Temporary (Value_other 7)), [])"
    by (simp add: demo_runtime_def)
  have g2: "GetValue demo_runtime (NormalCompletion (Temporary (Value_other 7))) [] =
              (NormalCompletion (Value_other 7), [])"
    by (simp add: demo_runtime_def)
  have p: "PutValue demo_runtime (NormalCompletion (Binding ''x'')) (NormalCompletion (Value_other 7)) [] =
             (NormalCompletion Value_undefined, [(''x'', Value_other 7)])"
    by (simp add: demo_runtime_def)
  from plain_assignment_source_once_value_stored [OF d r] e1 na e2 g2 p d r
  show ?thesis by auto
qed

text \<open>
  Claim C9. Every operator text other than \<^verbatim>\<open>=\<close>, \<^verbatim>\<open>&&=\<close>, \<^verbatim>\<open>||=\<close> and \<^verbatim>\<open>??=\<close> is
  taken through the compound branch: the evaluator throws no error of its own, and once
  target and source have been read it applies the operator to whatever the table lookup
  gave. For a text outside the twelve compound tokens the lookup is no operator symbol;
  for an operator token it is \<^verbatim>\<open>undefined\<close>.
\<close>

theorem unknown_operator_token_passed_on:
  assumes "opr \<notin> set [''='', ''&&='', ''||='', ''??='']"
  shows "(\<forall>err. result_of (Evaluate_AssignmentExpression rt LHS opr AE s) \<noteq> Inl err) \<and>
         (\<forall>lref s1 lval s2 rref s3 rval s4.
            Evaluate rt LHS s = (lref, s1) \<and>
            GetValue rt lref s1 = (NormalCompletion lval, s2) \<and>
            Evaluate rt AE s2 = (rref, s3) \<and>
            GetValue rt rref s3 = (NormalCompletion rval, s4) \<longrightarrow>
            take 5 (calls_of (Evaluate_AssignmentExpression rt LHS opr AE s)) =
              [C_Evaluate Target LHS, C_GetValue lref, C_Evaluate Source AE, C_GetValue rref,
               C_Apply lval (opText_lookup opr) rval]) \<and>
         (opr \<notin> fst ` set opText_table \<longrightarrow> (\<forall>symb. opText_lookup opr \<noteq> OpText symb)) \<and>
         (is_operator_token opr \<and> opr \<notin> fst ` set opText_table \<longrightarrow>
            opText_lookup opr = OpUndefined)"
proof (intro conjI)
  from assms have ns: "opr \<noteq> ''=''" "opr \<noteq> ''&&=''" "opr \<noteq> ''||=''" "opr \<noteq> ''??=''"
    by auto
  show "\<forall>err. result_of (Evaluate_AssignmentExpression rt LHS opr AE s) \<noteq> Inl err"
    using ns by (auto simp: run_defs split: prod.splits Completion.splits)
  show "\<forall>lref s1 lval s2 rref s3 rval s4.
            Evaluate rt LHS s = (lref, s1) \<and>
            GetValue rt lref s1 = (NormalCompletion lval, s2) \<and>
            Evaluate rt AE s2 = (rref, s3) \<and>
            GetValue rt rref s3 = (NormalCompletion rval, s4) \<longrightarrow>
            take 5 (calls_of (Evaluate_AssignmentExpression rt LHS opr AE s)) =
              [C_Evaluate Target LHS, C_GetValue lref, C_Evaluate Source AE, C_GetValue rref,
               C_Apply lval (opText_lookup opr) rval]"
    using ns by (auto simp: run_defs split: prod.splits Completion.splits)
  show "opr \<notin> fst ` set opText_table \<longrightarrow> (\<forall>symb. opText_lookup opr \<noteq> OpText symb)"
    by (force simp: opText_lookup_OpText_iff)
  show "is_operator_token opr \<and> opr \<notin> fst ` set opText_table \<longrightarrow> opText_lookup opr = OpUndefined"
  proof
    assume a: "is_operator_token opr \<and> opr \<notin> fst ` set opText_table"
    then have "map_of opText_table opr = None"
      by (simp add: map_of_eq_None_iff)
    with a operator_token_not_inherited [of opr] show "opText_lookup opr = OpUndefined"
      by (simp add: opText_lookup_def)
  qed
qed

theorem unknown_operator_token_passed_on_witness:
  "''=>'' \<notin> set [''='', ''&&='', ''||='', ''??=''] \<and>
   is_operator_token ''=>'' \<and> ''=>'' \<notin> fst ` set opText_table \<and>
   opText_lookup ''=>'' = OpUndefined \<and>
   take 5 (calls_of (Evaluate_AssignmentExpression demo_runtime
       (IdentifierReference ''a'') ''=>'' (OtherNode ''7'') [(''a'', Value_other 2)])) =
     [C_Evaluate Target (IdentifierReference ''a''), C_GetValue (NormalCompletion (Binding ''a'')),
      C_Evaluate Source (OtherNode ''7''),
      C_GetValue (NormalCompletion (Temporary (Value_other 7))),
      C_Apply (Value_other 2) OpUndefined (Value_other 7)]"
proof -
  have n: "''=>'' \<notin> set [''='', ''&&='', ''||='', ''??='']"
    by simp
  have tok: "is_operator_token ''=>''"
    by (simp add: is_operator_token_def is_punctuator_char_def)
  have nt: "''=>'' \<notin> fst ` set opText_table"
    by (simp add: opText_table_def)
  have e1: "Evaluate demo_runtime (IdentifierReference ''a'') [(''a'', Value_other 2)] =
              (NormalCompletion (Binding ''a''), [(''a'', Value_other 2)])"
    by (simp add: demo_runtime_def)
  have g1: "GetValue demo_runtime (NormalCompletion (Binding ''a'')) [(''a'', Value_other 2)] =
              (NormalCompletion (Value_other 2), [(''a'', Value_other 2)])"
    by (simp add: demo_runtime_def)
  have e2: "Evaluate demo_runtime (OtherNode ''7'') [(''a'', Value_other 2)] =
              (NormalCompletion (Temporary (Value_other 7)), [(''a'', Value_other 2)])"
    by (simp add: demo_runtime_def)
  have g2: "GetValue demo_runtime (NormalCompletion (Temporary (Value_other 7))) [(''a'', Value_other 2)] =
              (NormalCompletion (Value_other 7), [(''a'', Value_other 2)])"
    by (simp add: demo_runtime_def)
  note w = unknown_operator_token_passed_on
             [OF n, of demo_runtime "IdentifierReference ''a''" "OtherNode ''7''" "[(''a'', Value_other 2)]"]
  from w tok nt have u: "opText_lookup ''=>'' = OpUndefined"
    by blast
  from w e1 g1 e2 g2
  have "take 5 (calls_of (Evaluate_AssignmentExpression demo_runtime
       (IdentifierReference ''a'') ''=>'' (OtherNode ''7'') [(''a'', Value_other 2)])) =
     [C_Evaluate Target (IdentifierReference ''a''), C_GetValue (NormalCompletion (Binding ''a'')),
      C_Evaluate Source (OtherNode ''7''),
      C_GetValue (NormalCompletion (Temporary (Value_other 7))),
      C_Apply (Value_other 2) (opText_lookup ''=>'') (Value_other 7)]"
    by blast
  with n tok nt u show ?thesis by simp
qed

text \<open>
  Claim C10. Whatever the operator, a run that completes normally with value \<open>v\<close> either
  made exactly one store, and the value handed to that store is \<open>v\<close>; or made no store,
  and then the operator is a logical one whose test said stop, the run consists of the
  evaluation and dereferencing of the target, and \<open>v\<close> is the value that dereferencing gave.
\<close>

theorem normal_completion_returns_stored_value:
  assumes "result_of (Evaluate_AssignmentExpression rt LHS opr AE s) = Inr (NormalCompletion v)"
  shows "(\<exists>c. store_calls (calls_of (Evaluate_AssignmentExpression rt LHS opr AE s)) = [c] \<and>
              stored_value c = Some (NormalCompletion v)) \<or>
         (store_calls (calls_of (Evaluate_AssignmentExpression rt LHS opr AE s)) = [] \<and>
          opr \<in> set [''&&='', ''||='', ''??=''] \<and> short_circuits rt opr v \<and>
          (\<exists>lref s1 s2. Evaluate rt LHS s = (lref, s1) \<and>
                         GetValue rt lref s1 = (NormalCompletion v, s2) \<and>
                         calls_of (Evaluate_AssignmentExpression rt LHS opr AE s) =
                           [C_Evaluate Target LHS, C_GetValue lref]))"
proof -
  note unfold = Evaluate_AssignmentExpression_def call_Evaluate_def call_GetValue_def
    call_NamedEvaluation_def call_Destructuring_def call_Apply_def result_of_def calls_of_def
    obs_defs short_circuits_def
  consider "opr = ''=''" | "opr = ''&&=''" | "opr = ''||=''" | "opr = ''??=''"
    | "opr \<noteq> ''=''" "opr \<noteq> ''&&=''" "opr \<noteq> ''||=''" "opr \<noteq> ''??=''"
    by blast
  then show ?thesis
  proof cases
    case 1
    then show ?thesis
      using assms
      by (auto simp: unfold split: prod.splits Completion.splits sum.splits if_splits
               dest!: assign_source_normalD store_and_return_normalD)
  next
    case 2
    then show ?thesis
      using assms
      by (auto simp: unfold split: prod.splits Completion.splits sum.splits if_splits
               dest!: assign_source_normalD store_and_return_normalD)
  next
    case 3
    then show ?thesis
      using assms
      by (auto simp: unfold split: prod.splits Completion.splits sum.splits if_splits
               dest!: assign_source_normalD store_and_return_normalD)
  next
    case 4
    then show ?thesis
      using assms
      by (auto simp: unfold split: prod.splits Completion.splits sum.splits if_splits
               dest!: assign_source_normalD store_and_return_normalD)
  next
    case 5
    then show ?thesis
      using assms
      by (auto simp: unfold split: prod.splits Completion.splits sum.splits if_splits
               dest!: assign_source_normalD store_and_return_normalD)
  qed
qed

theorem normal_completion_returns_stored_value_witness:
  "result_of (Evaluate_AssignmentExpression demo_runtime
       (IdentifierReference ''a'') ''+='' (OtherNode ''7'') [(''a'', Value_other 2)]) =
     Inr (NormalCompletion (Value_other 9)) \<and>
   store_calls (calls_of (Evaluate_AssignmentExpression demo_runtime
       (IdentifierReference ''a'') ''+='' (OtherNode ''7'') [(''a'', Value_other 2)])) =
     [C_PutValue (NormalCompletion (Binding ''a'')) (NormalCompletion (Value_other 9))] \<and>
   result_of (Evaluate_AssignmentExpression demo_runtime
       (ArrayLiteral []) ''='' (OtherNode ''7'') []) = Inr (NormalCompletion (Value_other 7)) \<and>
   (\<exists>c. store_calls (calls_of (Evaluate_AssignmentExpression demo_runtime
           (ArrayLiteral []) ''='' (OtherNode ''7'') [])) = [c] \<and>
        stored_value c = Some (NormalCompletion (Value_other 7))) \<and>
   result_of (Evaluate_AssignmentExpression demo_runtime
       (IdentifierReference ''a'') ''||='' (OtherNode ''7'') [(''a'', Value_true)]) =
     Inr (NormalCompletion Value_true) \<and>
   store_calls (calls_of (Evaluate_AssignmentExpression demo_runtime
       (IdentifierReference ''a'') ''||='' (OtherNode ''7'') [(''a'', Value_true)])) = []"
proof -
  have r1: "result_of (Evaluate_AssignmentExpression demo_runtime
       (IdentifierReference ''a'') ''+='' (OtherNode ''7'') [(''a'', Value_other 2)]) =
     Inr (NormalCompletion (Value_other 9))"
    by (simp add: run_defs demo_defs numeral_2_eq_2 eval_nat_numeral)
  have c1: "store_calls (calls_of (Evaluate_AssignmentExpression demo_runtime
       (IdentifierReference ''a'') ''+='' (OtherNode ''7'') [(''a'', Value_other 2)])) =
     [C_PutValue (NormalCompletion (Binding ''a'')) (NormalCompletion (Value_other 9))]"
    by (simp add: run_defs obs_defs demo_defs numeral_2_eq_2 eval_nat_numeral)
  have r2: "result_of (Evaluate_AssignmentExpression demo_runtime
       (ArrayLiteral []) ''='' (OtherNode ''7'') []) = Inr (NormalCompletion (Value_other 7))"
    by (simp add: run_defs demo_defs)
  have r3: "result_of (Evaluate_AssignmentExpression demo_runtime
       (IdentifierReference ''a'') ''||='' (OtherNode ''7'') [(''a'', Value_true)]) =
     Inr (NormalCompletion Value_true)"
    by (simp add: run_defs demo_defs)
  have c3: "store_calls (calls_of (Evaluate_AssignmentExpression demo_runtime
       (IdentifierReference ''a'') ''||='' (OtherNode ''7'') [(''a'', Value_true)])) = []"
    by (simp add: run_defs obs_defs demo_defs)
  have c2: "\<exists>c. store_calls (calls_of (Evaluate_AssignmentExpression demo_runtime
           (ArrayLiteral []) ''='' (OtherNode ''7'') [])) = [c] \<and>
        stored_value c = Some (NormalCompletion (Value_other 7))"
    using normal_completion_returns_stored_value [OF r2] by simp
  from normal_completion_returns_stored_value [OF r1] normal_completion_returns_stored_value [OF r3]
    r1 c1 r2 c2 r3 c3
  show ?thesis by simp
qed

end
